theory Spec2Isabelle
  imports Complex_Main "HOL-Library.Multiset"
begin

section \<open>Values held by a data frame\<close>

text \<open>
  The dashboard (\<^verbatim>\<open>src/dashboard.py\<close>) works on pandas data frames. A numeric cell is a
  float that may be NaN, the marker pandas uses for a missing value; a text cell is a
  string or missing. Both are modelled as options, \<open>None\<close> standing for NaN / missing.
  Numbers are exact rationals: rounding of binary floats is not modelled.
\<close>

type_synonym num = "rat option"
type_synonym text_cell = "string option"

text \<open>Comparisons of a column with a scalar: every comparison with NaN is false.\<close>

fun num_le :: "num \<Rightarrow> rat \<Rightarrow> bool" where
  "num_le None b = False"
| "num_le (Some a) b = (a \<le> b)"

fun num_ge :: "num \<Rightarrow> rat \<Rightarrow> bool" where
  "num_ge None b = False"
| "num_ge (Some a) b = (a \<ge> b)"

fun num_gt :: "num \<Rightarrow> rat \<Rightarrow> bool" where
  "num_gt None b = False"
| "num_gt (Some a) b = (a > b)"

section \<open>Retention classifier\<close>

text \<open>
  \<^verbatim>\<open>
  def get_retention_group(days):
      if days <= 5: return "0-5 days"
      elif days <= 15: return "6-15 days"
      elif days <= 30: return "16-30 days"
      else: return "30+ days"
  \<close>
\<close>

definition get_retention_group :: "num \<Rightarrow> string" where
  "get_retention_group days =
     (if num_le days 5 then ''0-5 days''
      else if num_le days 15 then ''6-15 days''
      else if num_le days 30 then ''16-30 days''
      else ''30+ days'')"

definition retention_groups :: "string list" where
  "retention_groups = [''0-5 days'', ''6-15 days'', ''16-30 days'', ''30+ days'']"

section \<open>The frames read from the export files\<close>

text \<open>
  \<^verbatim>\<open>pd.read_csv\<close> is library code. Its result is the starting point of the model: a column
  is either numeric (floats, NaN where the field is missing) or a text column (strings,
  missing where the field is missing). The dtype of a text column depends on the library
  version: \<^verbatim>\<open>object\<close> before pandas 3, \<^verbatim>\<open>str\<close> from pandas 3 on. The code tests the dtype, so
  the model keeps it. A frame is a record of columns, all of the same length.
\<close>

datatype column = NumCol "num list" | ObjCol "text_cell list" | StrCol "text_cell list"

fun column_length :: "column \<Rightarrow> nat" where
  "column_length (NumCol xs) = length xs"
| "column_length (ObjCol cs) = length cs"
| "column_length (StrCol cs) = length cs"

record raw_member_df =
  user_id_raw :: "text_cell list"
  name_raw :: "text_cell list"
  display_name_raw :: "text_cell list"
  messages_posted_raw :: column
  days_active_raw :: column
  high_engagement_raw :: "num list"

definition wf_member_df :: "raw_member_df \<Rightarrow> bool" where
  "wf_member_df df \<longleftrightarrow>
     length (name_raw df) = length (user_id_raw df)
     \<and> length (display_name_raw df) = length (user_id_raw df)
     \<and> column_length (messages_posted_raw df) = length (user_id_raw df)
     \<and> column_length (days_active_raw df) = length (user_id_raw df)
     \<and> length (high_engagement_raw df) = length (user_id_raw df)"

text \<open>Rows of the three normalized frames.\<close>

record member =
  user_id :: text_cell
  name :: text_cell
  display_name :: text_cell
  messages_posted :: num
  days_active :: num
  high_engagement :: num
  retention_group :: string

record channel_row =
  channel :: text_cell
  channel_name :: text_cell
  channel_messages_posted :: num
  total_membership :: num
  avg_messages_per_user :: num
  members_who_posted :: num

text \<open>
  A workspace row, with the \<^verbatim>\<open>date\<close> column as text before loading and as a timestamp
  (nanoseconds since the epoch) after \<^verbatim>\<open>pd.to_datetime\<close>.
\<close>

record 'd workspace_day =
  date :: 'd
  daily_active_people :: num
  workspace_messages_posted :: num
  engagement_ratio :: num
  total_enabled_members :: num

section \<open>Series operations used by the dashboard\<close>

text \<open>\<^verbatim>\<open>Series.astype(str)\<close> on an object column: a missing cell becomes the text \<^verbatim>\<open>nan\<close>.\<close>

fun astype_str :: "text_cell \<Rightarrow> string" where
  "astype_str None = ''nan''"
| "astype_str (Some s) = s"

text \<open>\<^verbatim>\<open>.str.replace(',', '')\<close>: every comma is removed.\<close>

definition str_replace_comma :: "string \<Rightarrow> string" where
  "str_replace_comma s = filter (\<lambda>c. c \<noteq> CHR '','') s"

text \<open>
  \<^verbatim>\<open>pd.to_numeric(col, errors='coerce')\<close>: a numeric column is returned as it is; in a
  text column of either dtype every string goes through the library's number parser, and
  a string it rejects becomes NaN. The parser is library code and is a parameter \<open>p\<close> of
  the model.
\<close>

fun to_numeric :: "(string \<Rightarrow> rat option) \<Rightarrow> column \<Rightarrow> num list" where
  "to_numeric p (NumCol xs) = xs"
| "to_numeric p (ObjCol cs) = map (\<lambda>c. case c of None \<Rightarrow> None | Some s \<Rightarrow> p s) cs"
| "to_numeric p (StrCol cs) = map (\<lambda>c. case c of None \<Rightarrow> None | Some s \<Rightarrow> p s) cs"

text \<open>\<^verbatim>\<open>Series.fillna(v)\<close> with a scalar, and with another series of the same index.\<close>

definition fillna :: "'a \<Rightarrow> 'a option list \<Rightarrow> 'a option list" where
  "fillna v xs = map (\<lambda>x. case x of None \<Rightarrow> Some v | Some y \<Rightarrow> Some y) xs"

definition fillna_series :: "'a option list \<Rightarrow> 'a option list \<Rightarrow> 'a option list" where
  "fillna_series xs ys = map (\<lambda>(x, y). case x of None \<Rightarrow> y | Some v \<Rightarrow> Some v) (zip xs ys)"

text \<open>Reductions skip NaN; the sum of nothing is 0, the mean and the maximum of nothing are NaN.\<close>

fun dropna :: "num list \<Rightarrow> rat list" where
  "dropna [] = []"
| "dropna (None # xs) = dropna xs"
| "dropna (Some v # xs) = v # dropna xs"

definition series_sum :: "num list \<Rightarrow> rat" where
  "series_sum xs = sum_list (dropna xs)"

definition series_mean :: "num list \<Rightarrow> num" where
  "series_mean xs =
     (let vs = dropna xs in if vs = [] then None else Some (sum_list vs / of_nat (length vs)))"

definition series_max :: "num list \<Rightarrow> num" where
  "series_max xs = (case dropna xs of [] \<Rightarrow> None | v # vs \<Rightarrow> Some (fold max vs v))"

text \<open>\<^verbatim>\<open>Series.dt.date\<close>: the calendar day of a timestamp, as a day number.\<close>

definition dt_date :: "int \<Rightarrow> int" where
  "dt_date t = t div 86400000000000"

section \<open>Loading\<close>

text \<open>
  \<^verbatim>\<open>
  if member_df['messages_posted'].dtype == 'object':
      member_df['messages_posted'] = member_df['messages_posted'].astype(str).str.replace(',', '')
  member_df['messages_posted'] = pd.to_numeric(member_df['messages_posted'], errors='coerce').fillna(0)
  member_df['days_active'] = pd.to_numeric(member_df['days_active'], errors='coerce').fillna(0)
  member_df['display_name'] = member_df['display_name'].fillna(member_df['name']).fillna("Unknown Member")
  \<close>
\<close>

text \<open>
  The guard \<^verbatim>\<open>dtype == 'object'\<close> holds of an object column only: a numeric column and a
  text column of dtype \<^verbatim>\<open>str\<close> are left as they are.
\<close>

fun strip_separators :: "column \<Rightarrow> column" where
  "strip_separators (ObjCol cs) = ObjCol (map (\<lambda>c. Some (str_replace_comma (astype_str c))) cs)"
| "strip_separators (NumCol xs) = NumCol xs"
| "strip_separators (StrCol cs) = StrCol cs"

definition clean_messages_posted :: "(string \<Rightarrow> rat option) \<Rightarrow> column \<Rightarrow> num list" where
  "clean_messages_posted p col = fillna 0 (to_numeric p (strip_separators col))"

definition clean_days_active :: "(string \<Rightarrow> rat option) \<Rightarrow> column \<Rightarrow> num list" where
  "clean_days_active p col = fillna 0 (to_numeric p col)"

definition clean_display_name :: "text_cell list \<Rightarrow> text_cell list \<Rightarrow> text_cell list" where
  "clean_display_name dn nm = fillna ''Unknown Member'' (fillna_series dn nm)"

definition member_rows ::
  "text_cell list \<Rightarrow> text_cell list \<Rightarrow> text_cell list \<Rightarrow> num list \<Rightarrow> num list \<Rightarrow> num list
     \<Rightarrow> string list \<Rightarrow> member list" where
  "member_rows us ns ds ms as hs gs =
     map (\<lambda>(u, n, d, m, a, h, g).
            \<lparr>user_id = u, name = n, display_name = d, messages_posted = m, days_active = a,
             high_engagement = h, retention_group = g\<rparr>)
         (zip us (zip ns (zip ds (zip ms (zip as (zip hs gs))))))"

definition clean_member_df :: "(string \<Rightarrow> rat option) \<Rightarrow> raw_member_df \<Rightarrow> member list" where
  "clean_member_df p df =
     (let ms = clean_messages_posted p (messages_posted_raw df);
          as = clean_days_active p (days_active_raw df);
          ds = clean_display_name (display_name_raw df) (name_raw df);
          gs = map get_retention_group as
      in member_rows (user_id_raw df) (name_raw df) ds ms as (high_engagement_raw df) gs)"

text \<open>
  \<^verbatim>\<open>workspace_df['date'] = pd.to_datetime(workspace_df['date'])\<close> raises on a date it
  cannot parse, and nothing catches that. The date parser is library code and is the
  parameter \<open>d\<close>.
\<close>

fun to_datetime ::
  "(string \<Rightarrow> int option) \<Rightarrow> string workspace_day list \<Rightarrow> int workspace_day list option" where
  "to_datetime d [] = Some []"
| "to_datetime d (r # rs) =
     (case d (date r) of
        None \<Rightarrow> None
      | Some t \<Rightarrow>
          (case to_datetime d rs of
             None \<Rightarrow> None
           | Some rs' \<Rightarrow>
               Some (\<lparr>date = t, daily_active_people = daily_active_people r,
                      workspace_messages_posted = workspace_messages_posted r,
                      engagement_ratio = engagement_ratio r,
                      total_enabled_members = total_enabled_members r\<rparr> # rs')))"

datatype load_error = FileNotFound | DateParseError

text \<open>
  \<^verbatim>\<open>load_data\<close>: each of the three files is there (\<open>Some\<close> frame) or not (\<open>None\<close>). A
  missing file stops the script (\<^verbatim>\<open>except FileNotFoundError\<close>); the three reads come
  first, then the dates, then the member columns.
\<close>

definition load_data ::
  "(string \<Rightarrow> rat option) \<Rightarrow> (string \<Rightarrow> int option) \<Rightarrow> raw_member_df option
     \<Rightarrow> channel_row list option \<Rightarrow> string workspace_day list option
     \<Rightarrow> load_error + (member list \<times> channel_row list \<times> int workspace_day list)" where
  "load_data p d member_csv channel_csv workspace_csv =
     (case member_csv of
        None \<Rightarrow> Inl FileNotFound
      | Some member_df \<Rightarrow>
     (case channel_csv of
        None \<Rightarrow> Inl FileNotFound
      | Some channel_df \<Rightarrow>
     (case workspace_csv of
        None \<Rightarrow> Inl FileNotFound
      | Some workspace_df \<Rightarrow>
     (case to_datetime d workspace_df of
        None \<Rightarrow> Inl DateParseError
      | Some workspace_df' \<Rightarrow>
          Inr (clean_member_df p member_df, channel_df, workspace_df')))))"

text \<open>
  A concrete number parser for the examples below: an optional minus sign followed by
  decimal digits, the plain integer literals on which every number parser agrees.
\<close>

definition digit_of :: "char \<Rightarrow> nat option" where
  "digit_of c =
     (let k = (of_char c :: nat) in if 48 \<le> k \<and> k \<le> 57 then Some (k - 48) else None)"

fun parse_digits :: "nat \<Rightarrow> string \<Rightarrow> nat option" where
  "parse_digits acc [] = Some acc"
| "parse_digits acc (c # cs) =
     (case digit_of c of None \<Rightarrow> None | Some k \<Rightarrow> parse_digits (10 * acc + k) cs)"

definition parse_int_literal :: "string \<Rightarrow> rat option" where
  "parse_int_literal s =
     (case s of
        [] \<Rightarrow> None
      | c # cs \<Rightarrow>
          if c = CHR ''-'' then
            (if cs = [] then None else map_option (\<lambda>n. - of_nat n) (parse_digits 0 cs))
          else map_option of_nat (parse_digits 0 s))"

section \<open>Filters\<close>

text \<open>
  \<^verbatim>\<open>
  if isinstance(date_range, (list, tuple)):
      if len(date_range) == 2:
          start_date, end_date = date_range
      elif len(date_range) == 1:
          start_date = end_date = date_range[0]
      else:
          start_date, end_date = min_date, max_date
  else:
      start_date = end_date = date_range
  \<close>
\<close>

datatype date_input = SingleDate int | DateSeq "int list"

fun normalize_date_range :: "int \<Rightarrow> int \<Rightarrow> date_input \<Rightarrow> int \<times> int" where
  "normalize_date_range min_date max_date (DateSeq [a, b]) = (a, b)"
| "normalize_date_range min_date max_date (DateSeq [a]) = (a, a)"
| "normalize_date_range min_date max_date (DateSeq ds) = (min_date, max_date)"
| "normalize_date_range min_date max_date (SingleDate a) = (a, a)"

text \<open>
  \<^verbatim>\<open>min_date = workspace_df['date'].min().date()\<close> and \<^verbatim>\<open>max_date\<close> likewise; an empty
  series has no minimum (\<open>None\<close>).
\<close>

definition min_date :: "int workspace_day list \<Rightarrow> int option" where
  "min_date ws = (case map date ws of [] \<Rightarrow> None | t # ts \<Rightarrow> Some (dt_date (fold min ts t)))"

definition max_date :: "int workspace_day list \<Rightarrow> int option" where
  "max_date ws = (case map date ws of [] \<Rightarrow> None | t # ts \<Rightarrow> Some (dt_date (fold max ts t)))"

definition selected_range :: "int workspace_day list \<Rightarrow> date_input \<Rightarrow> (int \<times> int) option" where
  "selected_range ws sel =
     (case min_date ws of
        None \<Rightarrow> None
      | Some lo \<Rightarrow>
          (case max_date ws of None \<Rightarrow> None | Some hi \<Rightarrow> Some (normalize_date_range lo hi sel)))"

text \<open>
  \<^verbatim>\<open>
  mask = (workspace_df['date'].dt.date >= start_date) & (workspace_df['date'].dt.date <= end_date)
  filtered_workspace_df = workspace_df.loc[mask].sort_values('date')
  \<close>
\<close>

definition filtered_workspace_df ::
  "int workspace_day list \<Rightarrow> int \<Rightarrow> int \<Rightarrow> int workspace_day list" where
  "filtered_workspace_df ws start_date end_date =
     sort_key date
       (filter (\<lambda>r. dt_date (date r) \<ge> start_date \<and> dt_date (date r) \<le> end_date) ws)"

text \<open>\<^verbatim>\<open>filtered_member_df = member_df[member_df['messages_posted'] >= min_messages]\<close>\<close>

definition filtered_member_df :: "member list \<Rightarrow> int \<Rightarrow> member list" where
  "filtered_member_df ms min_messages =
     filter (\<lambda>r. num_ge (messages_posted r) (of_int min_messages)) ms"

section \<open>Metrics\<close>

record metrics =
  total_members :: nat
  total_member_messages :: rat
  avg_messages_per_member :: rat
  avg_days_active :: num
  high_engagement_count :: rat
  pct_high_engagement :: rat
  members_with_messages :: nat
  pct_members_with_messages :: rat
  total_channels :: nat
  total_channel_messages :: rat
  avg_messages_per_channel :: rat
  total_channel_membership :: rat
  peak_daily_active :: num
  peak_messages_per_day :: num
  avg_daily_active :: num
  avg_messages_per_day :: num
  total_messages_period :: rat
  avg_engagement_ratio :: num
  latest_enabled_members :: num

definition calculate_metrics ::
  "member list \<Rightarrow> channel_row list \<Rightarrow> int workspace_day list \<Rightarrow> int workspace_day list
     \<Rightarrow> metrics" where
  "calculate_metrics member_df channel_df workspace_df filtered_ws =
     (let n_members = length (remdups (map user_id member_df));
          member_messages = series_sum (map messages_posted member_df);
          he_count = series_sum (map high_engagement member_df);
          with_messages = length (filter (\<lambda>r. num_gt (messages_posted r) 0) member_df);
          n_channels = length (remdups (map channel channel_df));
          channel_messages = series_sum (map channel_messages_posted channel_df)
      in \<lparr>total_members = n_members,
          total_member_messages = member_messages,
          avg_messages_per_member =
            (if n_members > 0 then member_messages / of_nat n_members else 0),
          avg_days_active = series_mean (map days_active member_df),
          high_engagement_count = he_count,
          pct_high_engagement = (if n_members > 0 then he_count / of_nat n_members * 100 else 0),
          members_with_messages = with_messages,
          pct_members_with_messages =
            (if n_members > 0 then of_nat with_messages / of_nat n_members * 100 else 0),
          total_channels = n_channels,
          total_channel_messages = channel_messages,
          avg_messages_per_channel =
            (if n_channels > 0 then channel_messages / of_nat n_channels else 0),
          total_channel_membership = series_sum (map total_membership channel_df),
          peak_daily_active = series_max (map daily_active_people filtered_ws),
          peak_messages_per_day = series_max (map workspace_messages_posted filtered_ws),
          avg_daily_active = series_mean (map daily_active_people filtered_ws),
          avg_messages_per_day = series_mean (map workspace_messages_posted filtered_ws),
          total_messages_period = series_sum (map workspace_messages_posted filtered_ws),
          avg_engagement_ratio = series_mean (map engagement_ratio filtered_ws),
          latest_enabled_members =
            (if length filtered_ws > 0 then total_enabled_members (last filtered_ws)
             else Some 0)\<rparr>)"

section \<open>Notions used in the statements\<close>

text \<open>
  The specification's reading of the display name: the first non-empty text of the chain
  supplied display name, supplied raw name, \<^verbatim>\<open>Unknown Member\<close>. A missing cell is a
  field with no text.
\<close>

definition field_text :: "text_cell \<Rightarrow> string" where
  "field_text c = (case c of None \<Rightarrow> [] | Some s \<Rightarrow> s)"

definition spec_display_name :: "string \<Rightarrow> string \<Rightarrow> string" where
  "spec_display_name supplied raw =
     (if supplied \<noteq> [] then supplied else if raw \<noteq> [] then raw else ''Unknown Member'')"

text \<open>A series in which no value is a negative number.\<close>

definition no_negative :: "num list \<Rightarrow> bool" where
  "no_negative xs = list_all (\<lambda>x. case x of None \<Rightarrow> True | Some v \<Rightarrow> 0 \<le> v) xs"

section \<open>Sample exports\<close>

text \<open>
  A member export of three rows whose \<^verbatim>\<open>messages_posted\<close> and \<^verbatim>\<open>days_active\<close> columns
  were read as text, because one value in each is written with a grouping separator.
\<close>

definition export_with_separators :: raw_member_df where
  "export_with_separators =
     \<lparr>user_id_raw = [Some ''U1'', Some ''U2'', Some ''U3''],
      name_raw = [Some ''alice'', Some ''bob'', None],
      display_name_raw = [Some ''Al'', None, None],
      messages_posted_raw = ObjCol [Some ''1,234'', Some ''0'', None],
      days_active_raw = ObjCol [Some ''3'', Some ''1,234'', Some ''40''],
      high_engagement_raw = [Some 1, Some 0, None]\<rparr>"

text \<open>The same export as read by pandas 3: the two text columns have dtype \<^verbatim>\<open>str\<close>.\<close>

definition export_with_str_dtype :: raw_member_df where
  "export_with_str_dtype =
     \<lparr>user_id_raw = [Some ''U1'', Some ''U2'', Some ''U3''],
      name_raw = [Some ''alice'', Some ''bob'', None],
      display_name_raw = [Some ''Al'', None, None],
      messages_posted_raw = StrCol [Some ''1,234'', Some ''0'', None],
      days_active_raw = StrCol [Some ''3'', Some ''1,234'', Some ''40''],
      high_engagement_raw = [Some 1, Some 0, None]\<rparr>"

text \<open>A member export of two rows with numeric columns, the second row holding negative numbers.\<close>

definition export_with_negatives :: raw_member_df where
  "export_with_negatives =
     \<lparr>user_id_raw = [Some ''U1'', Some ''U2''],
      name_raw = [Some ''alice'', Some ''bob''],
      display_name_raw = [Some ''Al'', Some ''Bo''],
      messages_posted_raw = NumCol [Some 10, Some (- 5)],
      days_active_raw = NumCol [Some 3, Some (- 3)],
      high_engagement_raw = [Some 1, Some 0]\<rparr>"

text \<open>
  The sample member exports come with empty channel and workspace tables, so no date is
  ever parsed; the date parser used with them rejects every text.
\<close>

definition no_dates :: "string \<Rightarrow> int option" where
  "no_dates s = None"

text \<open>
  A workspace series of three days, stored out of order: day 3 (at 00:00:00.000000005),
  day 1 and day 2.
\<close>

definition workspace_sample :: "int workspace_day list" where
  "workspace_sample =
     [\<lparr>date = 259200000000005, daily_active_people = Some 12,
       workspace_messages_posted = Some 90, engagement_ratio = Some (6 / 25),
       total_enabled_members = Some 50\<rparr>,
      \<lparr>date = 86400000000000, daily_active_people = Some 10,
       workspace_messages_posted = Some 100, engagement_ratio = Some (5 / 24),
       total_enabled_members = Some 48\<rparr>,
      \<lparr>date = 172800000000000, daily_active_people = Some 7,
       workspace_messages_posted = None, engagement_ratio = Some (1 / 7),
       total_enabled_members = Some 49\<rparr>]"

section \<open>Properties of the retention classifier\<close>

text \<open>
  Claim C2. For every non-negative integer \<open>n\<close> of days active the classifier returns one
  of the four bucket labels, and each label is returned exactly on its interval:
  \<open>n \<le> 5\<close>, \<open>6 \<le> n \<le> 15\<close>, \<open>16 \<le> n \<le> 30\<close>, \<open>31 \<le> n\<close>. The four labels are distinct, so the
  buckets partition the non-negative integers with no gap and no overlap, the upper
  boundaries 5, 15 and 30 being inclusive.
\<close>

theorem get_retention_group_partition:
  fixes n :: nat
  shows "get_retention_group (Some (of_nat n)) \<in> set retention_groups
    \<and> distinct retention_groups
    \<and> (get_retention_group (Some (of_nat n)) = ''0-5 days'' \<longleftrightarrow> n \<le> 5)
    \<and> (get_retention_group (Some (of_nat n)) = ''6-15 days'' \<longleftrightarrow> 6 \<le> n \<and> n \<le> 15)
    \<and> (get_retention_group (Some (of_nat n)) = ''16-30 days'' \<longleftrightarrow> 16 \<le> n \<and> n \<le> 30)
    \<and> (get_retention_group (Some (of_nat n)) = ''30+ days'' \<longleftrightarrow> 31 \<le> n)"
proof -
  have le: "((of_nat n :: rat) \<le> 5) = (n \<le> 5)" "((of_nat n :: rat) \<le> 15) = (n \<le> 15)"
    "((of_nat n :: rat) \<le> 30) = (n \<le> 30)"
    using of_nat_le_iff [of n 5, where ?'a = rat] of_nat_le_iff [of n 15, where ?'a = rat]
      of_nat_le_iff [of n 30, where ?'a = rat]
    by simp_all
  show ?thesis
    unfolding get_retention_group_def retention_groups_def
    by (simp add: le)
qed

theorem get_retention_group_partition_witness:
  "get_retention_group (Some (of_nat 5)) = ''0-5 days''
   \<and> get_retention_group (Some (of_nat 6)) = ''6-15 days''
   \<and> get_retention_group (Some (of_nat 15)) = ''6-15 days''
   \<and> get_retention_group (Some (of_nat 16)) = ''16-30 days''
   \<and> get_retention_group (Some (of_nat 30)) = ''16-30 days''
   \<and> get_retention_group (Some (of_nat 31)) = ''30+ days''"
  using get_retention_group_partition [of 5] get_retention_group_partition [of 6]
    get_retention_group_partition [of 15] get_retention_group_partition [of 16]
    get_retention_group_partition [of 30] get_retention_group_partition [of 31]
  by simp

text \<open>
  Claim C10. The classifier is total on all numbers: it returns a label for every input,
  and every number strictly below 0 gets the lowest bucket \<open>0-5 days\<close>.
\<close>

theorem get_retention_group_negative:
  "days < 0 \<Longrightarrow> get_retention_group (Some days) = ''0-5 days''"
  by (simp add: get_retention_group_def)

theorem get_retention_group_negative_witness:
  "(-3 :: rat) < 0 \<and> get_retention_group (Some (-3)) = ''0-5 days''"
  using get_retention_group_negative [of "-3"] by simp

section \<open>Auxiliary facts\<close>

lemma length_fillna: "length (fillna v xs) = length xs"
  by (simp add: fillna_def)

lemma length_to_numeric: "length (to_numeric p col) = column_length col"
  by (cases col) simp_all

lemma column_length_strip: "column_length (strip_separators col) = column_length col"
  by (cases col) simp_all

lemma length_clean_messages_posted:
  "length (clean_messages_posted p col) = column_length col"
  by (simp add: clean_messages_posted_def length_fillna length_to_numeric column_length_strip)

lemma length_clean_days_active: "length (clean_days_active p col) = column_length col"
  by (simp add: clean_days_active_def length_fillna length_to_numeric)

lemma length_clean_display_name:
  "length (clean_display_name dn nm) = min (length dn) (length nm)"
  by (simp add: clean_display_name_def fillna_def fillna_series_def)

lemma member_rows_cells:
  "r \<in> set (member_rows us ns ds ms as hs gs) \<Longrightarrow>
     display_name r \<in> set ds \<and> messages_posted r \<in> set ms \<and> days_active r \<in> set as"
  by (auto simp: member_rows_def elim!: in_set_zipE)

lemma length_member_rows:
  "length ns = length us \<Longrightarrow> length ds = length us \<Longrightarrow> length ms = length us \<Longrightarrow>
   length as = length us \<Longrightarrow> length hs = length us \<Longrightarrow> length gs = length us \<Longrightarrow>
   length (member_rows us ns ds ms as hs gs) = length us"
  by (simp add: member_rows_def)

lemma nth_member_rows:
  "length ns = length us \<Longrightarrow> length ds = length us \<Longrightarrow> length ms = length us \<Longrightarrow>
   length as = length us \<Longrightarrow> length hs = length us \<Longrightarrow> length gs = length us \<Longrightarrow>
   i < length us \<Longrightarrow>
   member_rows us ns ds ms as hs gs ! i =
     \<lparr>user_id = us ! i, name = ns ! i, display_name = ds ! i, messages_posted = ms ! i,
      days_active = as ! i, high_engagement = hs ! i, retention_group = gs ! i\<rparr>"
  by (simp add: member_rows_def)

lemma clean_member_df_length:
  "wf_member_df df \<Longrightarrow> length (clean_member_df p df) = length (user_id_raw df)"
  by (simp add: clean_member_df_def Let_def wf_member_df_def length_member_rows
      length_clean_messages_posted length_clean_days_active length_clean_display_name)

lemma clean_member_df_nth:
  "wf_member_df df \<Longrightarrow> i < length (user_id_raw df) \<Longrightarrow>
   clean_member_df p df ! i =
     \<lparr>user_id = user_id_raw df ! i, name = name_raw df ! i,
      display_name = clean_display_name (display_name_raw df) (name_raw df) ! i,
      messages_posted = clean_messages_posted p (messages_posted_raw df) ! i,
      days_active = clean_days_active p (days_active_raw df) ! i,
      high_engagement = high_engagement_raw df ! i,
      retention_group = get_retention_group (clean_days_active p (days_active_raw df) ! i)\<rparr>"
  by (simp add: clean_member_df_def Let_def wf_member_df_def nth_member_rows
      length_clean_messages_posted length_clean_days_active length_clean_display_name)

lemma clean_member_df_messages_posted:
  "wf_member_df df \<Longrightarrow>
   map messages_posted (clean_member_df p df) = clean_messages_posted p (messages_posted_raw df)"
  by (rule nth_equalityI)
     (simp_all add: clean_member_df_length clean_member_df_nth length_clean_messages_posted
        wf_member_df_def)

lemma clean_member_df_days_active:
  "wf_member_df df \<Longrightarrow>
   map days_active (clean_member_df p df) = clean_days_active p (days_active_raw df)"
  by (rule nth_equalityI)
     (simp_all add: clean_member_df_length clean_member_df_nth length_clean_days_active
        wf_member_df_def)

lemma clean_member_df_cells:
  "r \<in> set (clean_member_df p df) \<Longrightarrow>
     display_name r \<in> set (clean_display_name (display_name_raw df) (name_raw df))
     \<and> messages_posted r \<in> set (clean_messages_posted p (messages_posted_raw df))
     \<and> days_active r \<in> set (clean_days_active p (days_active_raw df))"
  unfolding clean_member_df_def Let_def by (rule member_rows_cells)

lemma load_data_Inr:
  "load_data p d (Some mdf) (Some cdf) (Some wdf) = Inr (ms, cs, ws) \<Longrightarrow>
     ms = clean_member_df p mdf \<and> cs = cdf \<and> to_datetime d wdf = Some ws"
  by (auto simp: load_data_def split: option.splits)

lemma fillna_not_None: "x \<in> set (fillna v xs) \<Longrightarrow> x \<noteq> None"
  by (auto simp: fillna_def split: option.splits)

lemma fillna_nonneg:
  "no_negative xs \<Longrightarrow> x \<in> set (fillna 0 xs) \<Longrightarrow> num_ge x 0"
  by (auto simp: no_negative_def fillna_def list_all_iff split: option.splits)

lemma sorted_last_max: "sorted (map f xs) \<Longrightarrow> x \<in> set xs \<Longrightarrow> f x \<le> f (last xs)"
  by (induction xs) auto

lemma fold_min_Min: "fold min ts (t :: int) = Min (set (t # ts))"
  by (simp only: Min.set_eq_fold)

lemma fold_max_Max: "fold max ts (t :: int) = Max (set (t # ts))"
  by (simp only: Max.set_eq_fold)

lemma min_date_Min: "ws \<noteq> [] \<Longrightarrow> min_date ws = Some (dt_date (Min (date ` set ws)))"
  by (cases ws) (simp_all add: min_date_def fold_min_Min del: Min.set_eq_fold)

lemma max_date_Max: "ws \<noteq> [] \<Longrightarrow> max_date ws = Some (dt_date (Max (date ` set ws)))"
  by (cases ws) (simp_all add: max_date_def fold_max_Max del: Max.set_eq_fold)

lemma load_export_with_separators:
  "load_data parse_int_literal no_dates (Some export_with_separators) (Some []) (Some []) =
     Inr (clean_member_df parse_int_literal export_with_separators, [], [])"
  by (simp add: load_data_def)

lemma rows_export_with_separators:
  "clean_member_df parse_int_literal export_with_separators =
     [\<lparr>user_id = Some ''U1'', name = Some ''alice'', display_name = Some ''Al'',
       messages_posted = Some 1234, days_active = Some 3, high_engagement = Some 1,
       retention_group = ''0-5 days''\<rparr>,
      \<lparr>user_id = Some ''U2'', name = Some ''bob'', display_name = Some ''bob'',
       messages_posted = Some 0, days_active = Some 0, high_engagement = Some 0,
       retention_group = ''0-5 days''\<rparr>,
      \<lparr>user_id = Some ''U3'', name = None, display_name = Some ''Unknown Member'',
       messages_posted = Some 0, days_active = Some 40, high_engagement = None,
       retention_group = ''30+ days''\<rparr>]"
  by (simp add: clean_member_df_def export_with_separators_def Let_def member_rows_def
      clean_messages_posted_def clean_days_active_def clean_display_name_def fillna_def
      fillna_series_def str_replace_comma_def parse_int_literal_def digit_of_def
      get_retention_group_def)

lemma rows_export_with_str_dtype:
  "clean_member_df parse_int_literal export_with_str_dtype =
     [\<lparr>user_id = Some ''U1'', name = Some ''alice'', display_name = Some ''Al'',
       messages_posted = Some 0, days_active = Some 3, high_engagement = Some 1,
       retention_group = ''0-5 days''\<rparr>,
      \<lparr>user_id = Some ''U2'', name = Some ''bob'', display_name = Some ''bob'',
       messages_posted = Some 0, days_active = Some 0, high_engagement = Some 0,
       retention_group = ''0-5 days''\<rparr>,
      \<lparr>user_id = Some ''U3'', name = None, display_name = Some ''Unknown Member'',
       messages_posted = Some 0, days_active = Some 40, high_engagement = None,
       retention_group = ''30+ days''\<rparr>]"
  by (simp add: clean_member_df_def export_with_str_dtype_def Let_def member_rows_def
      clean_messages_posted_def clean_days_active_def clean_display_name_def fillna_def
      fillna_series_def parse_int_literal_def digit_of_def get_retention_group_def)

lemma rows_export_with_negatives:
  "clean_member_df p export_with_negatives =
     [\<lparr>user_id = Some ''U1'', name = Some ''alice'', display_name = Some ''Al'',
       messages_posted = Some 10, days_active = Some 3, high_engagement = Some 1,
       retention_group = ''0-5 days''\<rparr>,
      \<lparr>user_id = Some ''U2'', name = Some ''bob'', display_name = Some ''Bo'',
       messages_posted = Some (- 5), days_active = Some (- 3), high_engagement = Some 0,
       retention_group = ''0-5 days''\<rparr>]"
  by (simp add: clean_member_df_def export_with_negatives_def Let_def member_rows_def
      clean_messages_posted_def clean_days_active_def clean_display_name_def fillna_def
      fillna_series_def get_retention_group_def)

section \<open>Properties of loading\<close>

text \<open>
  What loading does to the two numeric member columns. In an object column of
  \<^verbatim>\<open>messages_posted\<close> every comma is deleted before coercion; in a text column of dtype
  \<^verbatim>\<open>str\<close>, and in \<^verbatim>\<open>days_active\<close> whatever its dtype, the text is coerced as it was read.
  A value that fails coercion, and a missing value, becomes 0, so that neither normalized
  column holds a null value.
\<close>

lemma load_data_member_numeric_columns:
  assumes "load_data p d (Some mdf) (Some cdf) (Some wdf) = Inr (ms, cs, ws)"
    and "wf_member_df mdf"
  shows "(\<forall>cells. messages_posted_raw mdf = ObjCol cells \<longrightarrow>
            map messages_posted ms =
              map (\<lambda>c. Some (case p (str_replace_comma (astype_str c)) of
                               None \<Rightarrow> 0 | Some v \<Rightarrow> v)) cells)
    \<and> (\<forall>cells. messages_posted_raw mdf = StrCol cells \<longrightarrow>
            map messages_posted ms =
              map (\<lambda>c. Some (case Option.bind c p of None \<Rightarrow> 0 | Some v \<Rightarrow> v)) cells)
    \<and> (\<forall>cells. days_active_raw mdf = ObjCol cells \<or> days_active_raw mdf = StrCol cells \<longrightarrow>
            map days_active ms =
              map (\<lambda>c. Some (case Option.bind c p of None \<Rightarrow> 0 | Some v \<Rightarrow> v)) cells)
    \<and> (\<forall>xs. messages_posted_raw mdf = NumCol xs \<longrightarrow>
            map messages_posted ms = map (\<lambda>x. Some (case x of None \<Rightarrow> 0 | Some v \<Rightarrow> v)) xs)
    \<and> (\<forall>xs. days_active_raw mdf = NumCol xs \<longrightarrow>
            map days_active ms = map (\<lambda>x. Some (case x of None \<Rightarrow> 0 | Some v \<Rightarrow> v)) xs)
    \<and> (\<forall>r \<in> set ms. messages_posted r \<noteq> None \<and> days_active r \<noteq> None)"
proof -
  from assms(1) have ms: "ms = clean_member_df p mdf"
    by (simp add: load_data_Inr)
  have m: "map messages_posted ms = clean_messages_posted p (messages_posted_raw mdf)"
    and a: "map days_active ms = clean_days_active p (days_active_raw mdf)"
    using assms(2) by (simp_all add: ms clean_member_df_messages_posted clean_member_df_days_active)
  have nn: "\<forall>r \<in> set ms. messages_posted r \<noteq> None \<and> days_active r \<noteq> None"
  proof
    fix r assume "r \<in> set ms"
    then have "messages_posted r \<in> set (clean_messages_posted p (messages_posted_raw mdf))"
      and "days_active r \<in> set (clean_days_active p (days_active_raw mdf))"
      using clean_member_df_cells [of r p mdf] by (simp_all add: ms)
    then show "messages_posted r \<noteq> None \<and> days_active r \<noteq> None"
      unfolding clean_messages_posted_def clean_days_active_def
      by (simp add: fillna_not_None)
  qed
  show ?thesis
    using nn
    by (auto simp: m a clean_messages_posted_def clean_days_active_def fillna_def
        split: option.splits)
qed

text \<open>
  Claim C3. The claim has the grouping separators of the numeric member fields stripped
  before coercion. On the sample export, read with object columns, the
  \<^verbatim>\<open>messages_posted\<close> text \<^verbatim>\<open>1,234\<close> of the first row is loaded as 1234, but the
  \<^verbatim>\<open>days_active\<close> text \<^verbatim>\<open>1,234\<close> of the second row is loaded as 0, although the same text
  with its separator removed coerces to 1234: this column is coerced without the strip.
  Read with columns of dtype \<^verbatim>\<open>str\<close>, the same export loads \<^verbatim>\<open>1,234\<close> as 0 in
  \<^verbatim>\<open>messages_posted\<close> too, the guard on the dtype being false.
\<close>

theorem days_active_separators_kept:
  "load_data parse_int_literal no_dates (Some export_with_separators) (Some []) (Some []) =
     Inr ([\<lparr>user_id = Some ''U1'', name = Some ''alice'', display_name = Some ''Al'',
       messages_posted = Some 1234, days_active = Some 3, high_engagement = Some 1,
       retention_group = ''0-5 days''\<rparr>,
      \<lparr>user_id = Some ''U2'', name = Some ''bob'', display_name = Some ''bob'',
       messages_posted = Some 0, days_active = Some 0, high_engagement = Some 0,
       retention_group = ''0-5 days''\<rparr>,
      \<lparr>user_id = Some ''U3'', name = None, display_name = Some ''Unknown Member'',
       messages_posted = Some 0, days_active = Some 40, high_engagement = None,
       retention_group = ''30+ days''\<rparr>], [], [])
   \<and> messages_posted_raw export_with_separators = ObjCol [Some ''1,234'', Some ''0'', None]
   \<and> days_active_raw export_with_separators = ObjCol [Some ''3'', Some ''1,234'', Some ''40'']
   \<and> parse_int_literal (str_replace_comma ''1,234'') = Some 1234
   \<and> load_data parse_int_literal no_dates (Some export_with_str_dtype) (Some []) (Some []) =
     Inr ([\<lparr>user_id = Some ''U1'', name = Some ''alice'', display_name = Some ''Al'',
       messages_posted = Some 0, days_active = Some 3, high_engagement = Some 1,
       retention_group = ''0-5 days''\<rparr>,
      \<lparr>user_id = Some ''U2'', name = Some ''bob'', display_name = Some ''bob'',
       messages_posted = Some 0, days_active = Some 0, high_engagement = Some 0,
       retention_group = ''0-5 days''\<rparr>,
      \<lparr>user_id = Some ''U3'', name = None, display_name = Some ''Unknown Member'',
       messages_posted = Some 0, days_active = Some 40, high_engagement = None,
       retention_group = ''30+ days''\<rparr>], [], [])
   \<and> messages_posted_raw export_with_str_dtype = StrCol [Some ''1,234'', Some ''0'', None]"
proof -
  have "parse_int_literal (str_replace_comma ''1,234'') = Some 1234"
    by (simp add: str_replace_comma_def parse_int_literal_def digit_of_def)
  moreover have "messages_posted_raw export_with_separators =
      ObjCol [Some ''1,234'', Some ''0'', None]"
    and "days_active_raw export_with_separators =
      ObjCol [Some ''3'', Some ''1,234'', Some ''40'']"
    by (simp_all add: export_with_separators_def)
  moreover have "messages_posted_raw export_with_str_dtype =
      StrCol [Some ''1,234'', Some ''0'', None]"
    by (simp add: export_with_str_dtype_def)
  ultimately show ?thesis
    by (simp add: load_export_with_separators rows_export_with_separators load_data_def
        rows_export_with_str_dtype)
qed

text \<open>
  Claim C4. Loading keeps every member row of the export, in order, and for every row the
  loaded display name is the first non-empty text of the chain supplied display name,
  supplied raw name, \<^verbatim>\<open>Unknown Member\<close>; it is a non-empty string. A cell of a frame read
  from a file is either missing or a non-empty text (an empty field is read as missing),
  which is the hypothesis on the two cells.
\<close>

theorem load_data_display_name_chain:
  assumes "load_data p d (Some mdf) (Some cdf) (Some wdf) = Inr (ms, cs, ws)"
    and "wf_member_df mdf"
    and "i < length (user_id_raw mdf)"
    and "display_name_raw mdf ! i \<noteq> Some []"
    and "name_raw mdf ! i \<noteq> Some []"
  shows "length ms = length (user_id_raw mdf)
    \<and> user_id (ms ! i) = user_id_raw mdf ! i
    \<and> display_name (ms ! i) =
           Some (spec_display_name (field_text (display_name_raw mdf ! i))
                                    (field_text (name_raw mdf ! i)))
    \<and> display_name (ms ! i) \<noteq> None \<and> display_name (ms ! i) \<noteq> Some []"
proof -
  from assms(1) have ms: "ms = clean_member_df p mdf"
    by (simp add: load_data_Inr)
  have n: "length ms = length (user_id_raw mdf)"
    using assms(2) by (simp add: ms clean_member_df_length)
  have il: "i < length (display_name_raw mdf)" "i < length (name_raw mdf)"
    using assms(2,3) by (simp_all add: wf_member_df_def)
  have u: "user_id (ms ! i) = user_id_raw mdf ! i"
    using assms(2,3) by (simp add: ms clean_member_df_nth)
  have "display_name (ms ! i) = clean_display_name (display_name_raw mdf) (name_raw mdf) ! i"
    using assms(2,3) by (simp add: ms clean_member_df_nth)
  also have "\<dots> = Some (spec_display_name (field_text (display_name_raw mdf ! i))
                                    (field_text (name_raw mdf ! i)))"
    using il assms(4,5)
    by (auto simp: clean_display_name_def fillna_def fillna_series_def spec_display_name_def
        field_text_def split: option.splits)
  finally show ?thesis
    using n u by (simp add: spec_display_name_def)
qed

theorem load_data_display_name_chain_witness:
  "wf_member_df export_with_separators
   \<and> length (user_id_raw export_with_separators) = 3
   \<and> load_data parse_int_literal no_dates (Some export_with_separators) (Some []) (Some []) =
       Inr (clean_member_df parse_int_literal export_with_separators, [], [])
   \<and> length (fst (projr
       (load_data parse_int_literal no_dates (Some export_with_separators) (Some []) (Some []))))
       = 3
   \<and> display_name (fst (projr
       (load_data parse_int_literal no_dates (Some export_with_separators) (Some []) (Some [])))
       ! 0) = Some ''Al''
   \<and> display_name (fst (projr
       (load_data parse_int_literal no_dates (Some export_with_separators) (Some []) (Some [])))
       ! 1) = Some ''bob''
   \<and> display_name (fst (projr
       (load_data parse_int_literal no_dates (Some export_with_separators) (Some []) (Some [])))
       ! 2) = Some ''Unknown Member''
   \<and> user_id (fst (projr
       (load_data parse_int_literal no_dates (Some export_with_separators) (Some []) (Some [])))
       ! 2) = Some ''U3''"
proof -
  let ?ms = "clean_member_df parse_int_literal export_with_separators"
  have w: "wf_member_df export_with_separators"
    by (simp add: wf_member_df_def export_with_separators_def)
  have i: "0 < length (user_id_raw export_with_separators)"
    "1 < length (user_id_raw export_with_separators)"
    "2 < length (user_id_raw export_with_separators)"
    and l: "length (user_id_raw export_with_separators) = 3"
    by (simp_all add: export_with_separators_def)
  have d: "display_name_raw export_with_separators ! 0 \<noteq> Some []"
    "display_name_raw export_with_separators ! 1 \<noteq> Some []"
    "display_name_raw export_with_separators ! 2 \<noteq> Some []"
    and n: "name_raw export_with_separators ! 0 \<noteq> Some []"
    "name_raw export_with_separators ! 1 \<noteq> Some []"
    "name_raw export_with_separators ! 2 \<noteq> Some []"
    by (simp_all add: export_with_separators_def)
  note c0 = load_data_display_name_chain [OF load_export_with_separators w i(1) d(1) n(1)]
    and c1 = load_data_display_name_chain [OF load_export_with_separators w i(2) d(2) n(2)]
    and c2 = load_data_display_name_chain [OF load_export_with_separators w i(3) d(3) n(3)]
  have len: "length ?ms = 3"
    using c0 l by simp
  have v: "display_name (?ms ! 0) = Some ''Al''" "display_name (?ms ! 1) = Some ''bob''"
    "display_name (?ms ! 2) = Some ''Unknown Member''" "user_id (?ms ! 2) = Some ''U3''"
    using c0 c1 c2
    by (simp_all add: export_with_separators_def spec_display_name_def field_text_def)
  show ?thesis
    using w l len v by (simp add: load_export_with_separators)
qed

text \<open>
  Claim C8, as the code has it. Loading does not clamp: \<^verbatim>\<open>messages_posted\<close> and
  \<^verbatim>\<open>days_active\<close> of every loaded member row are non-negative numbers provided no source
  value coerces to a negative number, and the channel frame is returned as it was read.
\<close>

theorem load_data_nonneg_preserved:
  assumes "load_data p d (Some mdf) (Some cdf) (Some wdf) = Inr (ms, cs, ws)"
    and "no_negative (to_numeric p (strip_separators (messages_posted_raw mdf)))"
    and "no_negative (to_numeric p (days_active_raw mdf))"
  shows "(\<forall>r \<in> set ms. num_ge (messages_posted r) 0 \<and> num_ge (days_active r) 0) \<and> cs = cdf"
proof -
  from assms(1) have ms: "ms = clean_member_df p mdf" and cs: "cs = cdf"
    by (simp_all add: load_data_Inr)
  have "num_ge (messages_posted r) 0 \<and> num_ge (days_active r) 0" if "r \<in> set ms" for r
  proof -
    from that have "messages_posted r \<in> set (clean_messages_posted p (messages_posted_raw mdf))"
      and "days_active r \<in> set (clean_days_active p (days_active_raw mdf))"
      using clean_member_df_cells [of r p mdf] by (simp_all add: ms)
    then show ?thesis
      using fillna_nonneg [OF assms(2)] fillna_nonneg [OF assms(3)]
      by (simp add: clean_messages_posted_def clean_days_active_def)
  qed
  then show ?thesis using cs by blast
qed

theorem load_data_nonneg_preserved_witness:
  "no_negative (to_numeric parse_int_literal
      (strip_separators (messages_posted_raw export_with_separators)))
   \<and> no_negative (to_numeric parse_int_literal (days_active_raw export_with_separators))
   \<and> num_ge (messages_posted (clean_member_df parse_int_literal export_with_separators ! 0)) 0
   \<and> num_ge (days_active (clean_member_df parse_int_literal export_with_separators ! 2)) 0"
proof -
  have a: "no_negative (to_numeric parse_int_literal
      (strip_separators (messages_posted_raw export_with_separators)))"
    by (simp add: no_negative_def export_with_separators_def str_replace_comma_def
        parse_int_literal_def digit_of_def)
  have b: "no_negative (to_numeric parse_int_literal (days_active_raw export_with_separators))"
    by (simp add: no_negative_def export_with_separators_def parse_int_literal_def digit_of_def)
  show ?thesis
    using load_data_nonneg_preserved [OF load_export_with_separators a b] a b by (simp add: rows_export_with_separators)
qed

text \<open>
  A member export with the numbers -5 and -3 in its second row loads successfully, and
  the loaded row keeps both negative values.
\<close>

theorem load_data_keeps_negative_values:
  "load_data parse_int_literal no_dates (Some export_with_negatives) (Some []) (Some []) =
     Inr ([\<lparr>user_id = Some ''U1'', name = Some ''alice'', display_name = Some ''Al'',
       messages_posted = Some 10, days_active = Some 3, high_engagement = Some 1,
       retention_group = ''0-5 days''\<rparr>,
      \<lparr>user_id = Some ''U2'', name = Some ''bob'', display_name = Some ''Bo'',
       messages_posted = Some (- 5), days_active = Some (- 3), high_engagement = Some 0,
       retention_group = ''0-5 days''\<rparr>], [], [])
   \<and> \<not> num_ge (Some (- 5)) 0 \<and> \<not> num_ge (Some (- 3)) 0"
  by (simp add: load_data_def rows_export_with_negatives)

section \<open>Properties of the filters\<close>

text \<open>
  Claim C5. For every workspace series and all bounds the date-range filter returns
  exactly the records (with multiplicity) whose calendar day lies in the inclusive
  interval from \<open>start_date\<close> to \<open>end_date\<close>, in ascending order of date, and the empty
  series when no record lies in the interval.
\<close>

theorem filtered_workspace_df_range:
  "mset (filtered_workspace_df ws start_date end_date) =
     filter_mset (\<lambda>r. start_date \<le> dt_date (date r) \<and> dt_date (date r) \<le> end_date) (mset ws)
   \<and> sorted (map date (filtered_workspace_df ws start_date end_date))
   \<and> sorted (map (\<lambda>r. dt_date (date r)) (filtered_workspace_df ws start_date end_date))
   \<and> ((\<forall>r \<in> set ws. \<not> (start_date \<le> dt_date (date r) \<and> dt_date (date r) \<le> end_date))
        \<longrightarrow> filtered_workspace_df ws start_date end_date = [])"
proof -
  let ?P = "\<lambda>r :: int workspace_day. dt_date (date r) \<ge> start_date \<and> dt_date (date r) \<le> end_date"
  have s: "sorted (map date (sort_key date (filter ?P ws)))"
    by (rule sorted_sort_key)
  have mono: "\<And>a b :: int. a \<le> b \<Longrightarrow> dt_date a \<le> dt_date b"
    by (simp add: dt_date_def zdiv_mono1)
  have "sorted (map dt_date (map date (sort_key date (filter ?P ws))))"
    using s mono by (simp add: sorted_wrt_map sorted_wrt_mono_rel [of _ "\<lambda>a b. date a \<le> date b"])
  then have s2: "sorted (map (\<lambda>r. dt_date (date r)) (sort_key date (filter ?P ws)))"
    by (simp add: comp_def)
  have e: "(\<forall>r \<in> set ws. \<not> ?P r) \<longrightarrow> sort_key date (filter ?P ws) = []"
    by (auto simp: filter_empty_conv)
  have m: "mset (sort_key date (filter ?P ws)) = filter_mset ?P (mset ws)"
    by simp
  show ?thesis
    unfolding filtered_workspace_df_def using s s2 e m by blast
qed

theorem filtered_workspace_df_range_witness:
  "map date (filtered_workspace_df workspace_sample 1 2) = [86400000000000, 172800000000000]
   \<and> filtered_workspace_df workspace_sample 10 20 = []"
  using filtered_workspace_df_range [of workspace_sample 10 20] filtered_workspace_df_range [of workspace_sample 1 2]
  by (simp add: workspace_sample_def filtered_workspace_df_def dt_date_def)

text \<open>
  Claim C6. A bare date and a one-element sequence both give start = end = that date; a
  sequence of length 0 or of length greater than 2 gives the minimum and maximum date
  of the workspace series.
\<close>

theorem normalize_date_range_shapes:
  "normalize_date_range lo hi (SingleDate a) = (a, a)
   \<and> normalize_date_range lo hi (DateSeq [a]) = (a, a)
   \<and> (length ds = 0 \<or> 2 < length ds \<longrightarrow> normalize_date_range lo hi (DateSeq ds) = (lo, hi))
   \<and> (ws \<noteq> [] \<longrightarrow>
        selected_range ws sel =
          Some (normalize_date_range (dt_date (Min (date ` set ws)))
                  (dt_date (Max (date ` set ws))) sel))"
proof -
  have "length ds = 0 \<or> 2 < length ds \<longrightarrow> normalize_date_range lo hi (DateSeq ds) = (lo, hi)"
    by (cases "(lo, hi, DateSeq ds)" rule: normalize_date_range.cases) auto
  then show ?thesis
    by (simp add: selected_range_def min_date_Min max_date_Max)
qed

theorem normalize_date_range_shapes_witness:
  "normalize_date_range 1 3 (DateSeq []) = (1, 3)
   \<and> normalize_date_range 1 3 (DateSeq [5, 6, 7]) = (1, 3)
   \<and> normalize_date_range 1 3 (DateSeq [2]) = (2, 2)
   \<and> normalize_date_range 1 3 (SingleDate 2) = (2, 2)
   \<and> selected_range workspace_sample (DateSeq []) = Some (1, 3)"
  using normalize_date_range_shapes [where ds = "[]" and lo = 1 and hi = 3 and a = 2 and ws = workspace_sample
      and sel = "DateSeq []"]
    normalize_date_range_shapes [where ds = "[5, 6, 7]" and lo = 1 and hi = 3 and a = 2 and ws = workspace_sample
      and sel = "DateSeq []"]
  by (simp add: workspace_sample_def dt_date_def)

text \<open>
  Claim C7, as the code has it. The threshold filter with \<^verbatim>\<open>min_messages = 0\<close> returns the
  member dataset unchanged exactly when every \<^verbatim>\<open>messages_posted\<close> value in it is a
  non-negative number; in that case the set of identifiers is unchanged too.
\<close>

theorem filtered_member_df_zero_threshold:
  "(filtered_member_df ms 0 = ms \<longleftrightarrow> (\<forall>r \<in> set ms. num_ge (messages_posted r) 0))
   \<and> ((\<forall>r \<in> set ms. num_ge (messages_posted r) 0) \<longrightarrow>
        set (map user_id (filtered_member_df ms 0)) = set (map user_id ms))"
  by (auto simp: filtered_member_df_def filter_id_conv)

theorem filtered_member_df_zero_threshold_witness:
  "filtered_member_df (clean_member_df parse_int_literal export_with_separators) 0 =
     clean_member_df parse_int_literal export_with_separators
   \<and> num_ge (messages_posted (clean_member_df parse_int_literal export_with_separators ! 0)) 0
   \<and> num_ge (messages_posted (clean_member_df parse_int_literal export_with_separators ! 1)) 0
   \<and> num_ge (messages_posted (clean_member_df parse_int_literal export_with_separators ! 2)) 0"
  using filtered_member_df_zero_threshold [of "clean_member_df parse_int_literal export_with_separators"]
  by (simp add: rows_export_with_separators)

text \<open>
  The loaded member dataset of the export with negative numbers has identifiers U1 and
  U2; the filter with threshold 0 drops the row of U2, whose \<^verbatim>\<open>messages_posted\<close> is -5.
\<close>

theorem zero_threshold_drops_negative_member:
  "load_data parse_int_literal no_dates (Some export_with_negatives) (Some []) (Some []) =
     Inr (clean_member_df parse_int_literal export_with_negatives, [], [])
   \<and> set (map user_id (clean_member_df parse_int_literal export_with_negatives)) =
       {Some ''U1'', Some ''U2''}
   \<and> set (map user_id
        (filtered_member_df (clean_member_df parse_int_literal export_with_negatives) 0)) =
       {Some ''U1''}
   \<and> set (map user_id
        (filtered_member_df (clean_member_df parse_int_literal export_with_negatives) 0))
       \<noteq> set (map user_id (clean_member_df parse_int_literal export_with_negatives))
   \<and> filtered_member_df (clean_member_df parse_int_literal export_with_negatives) 0
       \<noteq> clean_member_df parse_int_literal export_with_negatives"
  by (simp add: load_data_def rows_export_with_negatives filtered_member_df_def)

section \<open>Properties of the metrics\<close>

text \<open>
  Claim C9. For every filtered workspace view, \<^verbatim>\<open>latest_enabled_members\<close> is 0 when the
  view is empty and otherwise the \<^verbatim>\<open>total_enabled_members\<close> of the last record of the
  view, and no record of the view has a later date than that record.
\<close>

theorem latest_enabled_members_last_record:
  "latest_enabled_members
     (calculate_metrics ms cs ws (filtered_workspace_df ws start_date end_date)) =
     (if filtered_workspace_df ws start_date end_date = [] then Some 0
      else total_enabled_members (last (filtered_workspace_df ws start_date end_date)))
   \<and> (\<forall>r \<in> set (filtered_workspace_df ws start_date end_date).
         date r \<le> date (last (filtered_workspace_df ws start_date end_date)))"
proof -
  have "sorted (map date (filtered_workspace_df ws start_date end_date))"
    unfolding filtered_workspace_df_def by (rule sorted_sort_key)
  then have "\<forall>r \<in> set (filtered_workspace_df ws start_date end_date).
         date r \<le> date (last (filtered_workspace_df ws start_date end_date))"
    using sorted_last_max [of date] by blast
  then show ?thesis
    by (simp add: calculate_metrics_def Let_def)
qed

theorem latest_enabled_members_last_record_witness:
  "latest_enabled_members
     (calculate_metrics [] [] workspace_sample (filtered_workspace_df workspace_sample 1 2)) =
     Some 49
   \<and> latest_enabled_members
     (calculate_metrics [] [] workspace_sample (filtered_workspace_df workspace_sample 10 20)) =
     Some 0"
  using latest_enabled_members_last_record [of "[]" "[]" workspace_sample 1 2] latest_enabled_members_last_record [of "[]" "[]" workspace_sample 10 20]
  by (simp add: workspace_sample_def filtered_workspace_df_def dt_date_def)

text \<open>
  Claim C1. What the metrics are over empty datasets: the guarded ratios
  (\<^verbatim>\<open>avg_messages_per_member\<close>, the two percentages, \<^verbatim>\<open>avg_messages_per_channel\<close>) and
  \<^verbatim>\<open>latest_enabled_members\<close> are 0, but the four means taken with \<^verbatim>\<open>Series.mean()\<close>
  (\<^verbatim>\<open>avg_days_active\<close>, \<^verbatim>\<open>avg_daily_active\<close>, \<^verbatim>\<open>avg_messages_per_day\<close>,
  \<^verbatim>\<open>avg_engagement_ratio\<close>) are NaN, not 0.
\<close>

theorem calculate_metrics_empty_means:
  "avg_days_active (calculate_metrics [] cs ws fw) = None
   \<and> avg_daily_active (calculate_metrics ms cs ws []) = None
   \<and> avg_messages_per_day (calculate_metrics ms cs ws []) = None
   \<and> avg_engagement_ratio (calculate_metrics ms cs ws []) = None
   \<and> avg_messages_per_member (calculate_metrics [] cs ws fw) = 0
   \<and> pct_high_engagement (calculate_metrics [] cs ws fw) = 0
   \<and> pct_members_with_messages (calculate_metrics [] cs ws fw) = 0
   \<and> avg_messages_per_channel (calculate_metrics ms [] ws fw) = 0
   \<and> latest_enabled_members (calculate_metrics ms cs ws []) = Some 0"
  by (simp add: calculate_metrics_def Let_def series_mean_def series_sum_def)

end
